theory Spec2Isabelle
  imports Main
begin

section \<open>The chat engine hook (useChatEngine)\<close>

text \<open>
  The hook keeps three pieces of React state (\<open>conversation\<close>, \<open>isGenerating\<close> and the
  counter \<open>cancellationRef\<close>), writes the conversation to AsyncStorage under the key
  \<open>chat_history\<close>, and talks to the session singleton \<open>conversationContext\<close>.  The
  model is sequential state passing over one record.  Every \<open>await\<close> of the source is a
  point where the user interface may run, so each one carries the list of interface events
  that happen while the call is suspended.  What an external collaborator answers in a
  given call (the retrieval service, the remote agent, the local model, the storage write,
  the clock and the random identifier) is an input of that call.  The counter is a
  JavaScript number that only ever grows by one; it is a natural number here.  The state
  update \<open>setConversation(prev => ...)\<close> is applied to the latest state at once.
\<close>

subsection \<open>Data\<close>

datatype role = User | Assistant

text \<open>A message object \<open>{id, role, content, timestamp}\<close>.\<close>

record chat_msg =
  msg_id :: string
  role :: role
  content :: string
  timestamp :: string

type_synonym profile = "(string \<times> string) list"

text \<open>
  The result object of a tier.  A field that is absent, \<open>null\<close> or \<open>undefined\<close> is
  \<open>None\<close>; \<open>requiresFollowUp\<close> absent is \<open>False\<close>.
\<close>

record tier_result =
  message :: "string option"
  intent :: "string option"
  action :: "string option"
  requiresFollowUp :: bool
  partialData :: "profile option"
  missingFields :: "string list option"

record pending_followup =
  pf_intent :: string
  pf_partialData :: profile
  pf_missingFields :: "string list"

text \<open>The session singleton \<open>conversationContext\<close>: dialogue turns, profile, follow-up.\<close>

record conv_ctx =
  history :: "(role \<times> string) list"
  userContext :: profile
  pendingFollowUp :: "pending_followup option"

text \<open>What a call leaves behind outside the hook, in program order.\<close>

datatype effect =
    SetIsGenerating bool
  | RagQuery string profile
  | RagFollowUp string
  | AgentPost string
  | LocalGenerate "chat_msg list"
  | StorageSet "chat_msg list" bool
  | AlertShown string

record engine =
  conversation :: "chat_msg list"
  isGenerating :: bool
  cancellationRef :: nat
  storage :: "chat_msg list option"
  ctx :: conv_ctx
  effects :: "effect list"

text \<open>
  The values a render of the hook closes over: its arguments \<open>isInitialized\<close> and
  \<open>context\<close>, and the \<open>conversation\<close> state as that render saw it.
\<close>

record closure =
  isInitialized :: bool
  context_arg :: profile
  rendered_conversation :: "chat_msg list"

datatype 'a outcome = Throws | Returns 'a

text \<open>
  The remote agent: the request fails (network error, abort after ten seconds, unreadable
  body), or answers with a status that is not ok, or answers ok with a body whose
  \<open>response\<close> field may be missing.
\<close>

datatype agent_reply = AgentError | AgentStatus nat | AgentOk "string option"

text \<open>An interface event during an \<open>await\<close>: the user clears the conversation; the flag
  says whether that clear's storage write succeeds.\<close>

datatype ui_event = ClearPressed bool

text \<open>
  The inputs of one call of \<open>sendMessage\<close>, in program order: the events during the
  await of \<open>initializeContext\<close>; identifier, time stamp and storage outcome for the
  user message; what the retrieval call of this turn does (it throws, or returns
  something that is no object, or returns a result object) and the events while it is
  awaited; the same for the agent request and for the local model; identifier, time stamp
  and storage outcome for the assistant message.
\<close>

record world =
  during_init :: "ui_event list"
  user_id :: string
  user_ts :: string
  save_user_ok :: bool
  rag :: "tier_result option outcome"
  during_rag :: "ui_event list"
  agent :: agent_reply
  during_agent :: "ui_event list"
  local_model :: "string outcome"
  during_local :: "ui_event list"
  bot_id :: string
  bot_ts :: string
  save_bot_ok :: bool

text \<open>A settled promise.\<close>

datatype 'a completion = Resolved 'a | Rejected string

subsection \<open>JavaScript strings and truthiness\<close>

text \<open>
  A \<open>char\<close> stands for one code unit below 256.  Of those, \<open>String.prototype.trim\<close>
  removes tab, line feed, vertical tab, form feed, carriage return, space and the
  no-break space.
\<close>

definition isWhiteSpace :: "char \<Rightarrow> bool" where
  "isWhiteSpace c = (of_char c \<in> {9, 10, 11, 12, 13, 32, 160 :: nat})"

definition trim :: "string \<Rightarrow> string" where
  "trim s = rev (dropWhile isWhiteSpace (rev (dropWhile isWhiteSpace s)))"

text \<open>\<open>!text || !text.trim()\<close> for a string \<open>text\<close>.\<close>

definition blank :: "string \<Rightarrow> bool" where
  "blank text = (text = [] \<or> trim text = [])"

text \<open>\<open>!response\<close>: \<open>null\<close>, \<open>undefined\<close> and the empty string are falsy.\<close>

definition falsy :: "string option \<Rightarrow> bool" where
  "falsy r = (case r of None \<Rightarrow> True | Some s \<Rightarrow> s = [])"

subsection \<open>The session context\<close>

text \<open>
  Modelled from the spec: the module services/ConversationContext is not among the
  sources; \<open>addMessage\<close> appends to session memory with no bound.
\<close>

definition addMessage :: "role \<Rightarrow> string \<Rightarrow> conv_ctx \<Rightarrow> conv_ctx" where
  "addMessage r c cx = cx\<lparr>history := history cx @ [(r, c)]\<rparr>"

text \<open>
  Modelled from the spec: the module services/ConversationContext is not among the
  sources; \<open>setUserContext\<close> overwrites the profile, no merge.
\<close>

definition setUserContext :: "profile \<Rightarrow> conv_ctx \<Rightarrow> conv_ctx" where
  "setUserContext p cx = cx\<lparr>userContext := p\<rparr>"

text \<open>
  Modelled from the spec: the module services/ConversationContext is not among the
  sources; \<open>hasPendingFollowUp\<close> tells whether a follow-up is stored.
\<close>

definition hasPendingFollowUp :: "conv_ctx \<Rightarrow> bool" where
  "hasPendingFollowUp cx = (pendingFollowUp cx \<noteq> None)"

text \<open>
  Modelled from the spec: the module services/ConversationContext is not among the
  sources; \<open>setPendingFollowUp\<close> replaces any stored follow-up unconditionally.
\<close>

definition setPendingFollowUp :: "string \<Rightarrow> profile \<Rightarrow> string list \<Rightarrow> conv_ctx \<Rightarrow> conv_ctx" where
  "setPendingFollowUp i pd mf cx =
     cx\<lparr>pendingFollowUp := Some \<lparr>pf_intent = i, pf_partialData = pd, pf_missingFields = mf\<rparr>\<rparr>"

text \<open>
  Modelled from the spec: the module services/ConversationContext is not among the
  sources; \<open>clearPendingFollowUp\<close> removes the stored follow-up.
\<close>

definition clearPendingFollowUp :: "conv_ctx \<Rightarrow> conv_ctx" where
  "clearPendingFollowUp cx = cx\<lparr>pendingFollowUp := None\<rparr>"

text \<open>
  Modelled from the spec: the module services/ConversationContext is not among the
  sources; \<open>processFollowUpResponse\<close> hands the utterance to the retrieval service and
  clears the pending state as part of resolving, on success and on failure.  What the
  service answers is the \<open>rag\<close> input of the call; this is the effect on the session.
\<close>

definition processFollowUpResponse :: "conv_ctx \<Rightarrow> conv_ctx" where
  "processFollowUpResponse cx = clearPendingFollowUp cx"

text \<open>
  Modelled from the spec: the module services/ConversationContext is not among the
  sources; \<open>clearConversationHistory\<close> empties session memory and the pending
  follow-up together.
\<close>

definition clearConversationHistory :: "conv_ctx \<Rightarrow> conv_ctx" where
  "clearConversationHistory cx = cx\<lparr>history := [], pendingFollowUp := None\<rparr>"

subsection \<open>The hook\<close>

definition emit :: "effect \<Rightarrow> engine \<Rightarrow> engine" where
  "emit e st = st\<lparr>effects := effects st @ [e]\<rparr>"

text \<open>
  \<open>saveChats\<close>: \<open>AsyncStorage.setItem\<close> of the serialised conversation inside
  \<open>try\<close>; a rejected write is logged and swallowed, and the stored value stays.
  The stored JSON text is represented by the list it encodes.
\<close>

definition saveChats :: "bool \<Rightarrow> chat_msg list \<Rightarrow> engine \<Rightarrow> engine" where
  "saveChats ok newConversation st =
     (let st1 = emit (StorageSet newConversation ok) st
      in if ok then st1\<lparr>storage := Some newConversation\<rparr> else st1)"

definition clearConversation :: "bool \<Rightarrow> engine \<Rightarrow> engine" where
  "clearConversation ok st =
     (let st1 = st\<lparr>cancellationRef := cancellationRef st + 1\<rparr>;
          st2 = st1\<lparr>conversation := []\<rparr>;
          st3 = st2\<lparr>ctx := clearConversationHistory (ctx st2)\<rparr>
      in saveChats ok [] st3)"

text \<open>The interface events of one suspension, in order.\<close>

fun interfere :: "ui_event list \<Rightarrow> engine \<Rightarrow> engine" where
  "interfere [] st = st"
| "interfere (ClearPressed ok # es) st = interfere es (clearConversation ok st)"

definition setIsGenerating :: "bool \<Rightarrow> engine \<Rightarrow> engine" where
  "setIsGenerating b st = emit (SetIsGenerating b) (st\<lparr>isGenerating := b\<rparr>)"

text \<open>
  \<open>setConversation(prev => { const newHistory = [...prev, m]; saveChats(newHistory);
  return newHistory; })\<close>: the update reads the latest state.  React queues the
  updater and runs it at a later render, and the write inside it is not awaited; here
  both take effect where the update is issued.  A state of the model is therefore the
  state of the hook once the updates issued so far have run and their writes have settled
  in the order issued, and the place of a \<open>StorageSet\<close> among the later effects of
  a call is the place where its update was issued.
\<close>

definition appendMessage :: "bool \<Rightarrow> chat_msg \<Rightarrow> engine \<Rightarrow> engine" where
  "appendMessage ok m st =
     (let newHistory = conversation st @ [m]
      in (saveChats ok newHistory st)\<lparr>conversation := newHistory\<rparr>)"

text \<open>The closure a render builds from the hook's arguments and the current state.\<close>

definition useChatEngine :: "bool \<Rightarrow> profile \<Rightarrow> engine \<Rightarrow> closure" where
  "useChatEngine isInit cx st =
     \<lparr>isInitialized = isInit, context_arg = cx, rendered_conversation = conversation st\<rparr>"

text \<open>
  Lines 56 to 91 past the guard: the best-effort initialisation (its failure is only
  logged), the user message, the captured counter, the session context, the generating
  flag and the first append.
\<close>

definition begin_send :: "closure \<Rightarrow> world \<Rightarrow> string \<Rightarrow> engine \<Rightarrow> chat_msg \<times> nat \<times> engine" where
  "begin_send cl w text st =
     (let st0 = (if \<not> isInitialized cl then interfere (during_init w) st else st);
          userMessage = \<lparr>msg_id = user_id w, role = User, content = text, timestamp = user_ts w\<rparr>;
          cancellationId = cancellationRef st0;
          st1 = st0\<lparr>ctx := addMessage User text (ctx st0)\<rparr>;
          st2 = setIsGenerating True st1;
          st3 = appendMessage (save_user_ok w) userMessage st2
      in (userMessage, cancellationId, st3))"

text \<open>Step 1 of the strategy, the body of \<open>if (useRAGMode)\<close>.\<close>

definition tierA :: "world \<Rightarrow> profile \<Rightarrow> string \<Rightarrow> engine \<Rightarrow> (string option \<times> tier_result option) \<times> engine" where
  "tierA w cx text st =
     (let st1 = (if hasPendingFollowUp (ctx st)
                 then emit (RagFollowUp text) (st\<lparr>ctx := processFollowUpResponse (ctx st)\<rparr>)
                 else emit (RagQuery text cx) st);
          st2 = interfere (during_rag w) st1
      in case rag w of
           Throws \<Rightarrow> ((None, None), st2)
         | Returns result \<Rightarrow>
             (case result of
                None \<Rightarrow> ((None, None), st2)
              | Some r \<Rightarrow> ((if falsy (message r) then None else message r, Some r), st2)))"

text \<open>Step 2, the body of the first \<open>if (!response)\<close>; a failure keeps what step 1 left.\<close>

definition tierB :: "world \<Rightarrow> string \<Rightarrow> (string option \<times> tier_result option) \<Rightarrow> engine \<Rightarrow> (string option \<times> tier_result option) \<times> engine" where
  "tierB w text rr st =
     (let st1 = interfere (during_agent w) (emit (AgentPost text) st)
      in case agent w of
           AgentOk body \<Rightarrow>
             ((body, Some \<lparr>message = body, intent = Some ''backend_fallback'', action = None,
                 requiresFollowUp = False, partialData = None, missingFields = None\<rparr>), st1)
         | AgentStatus n \<Rightarrow> (rr, st1)
         | AgentError \<Rightarrow> (rr, st1))"

text \<open>Step 3, the body of the second \<open>if (!response)\<close>.\<close>

definition tierC :: "world \<Rightarrow> chat_msg list \<Rightarrow> engine \<Rightarrow> (string option \<times> tier_result option) completion \<times> engine" where
  "tierC w updatedConversationForModel st =
     (let st1 = interfere (during_local w) (emit (LocalGenerate updatedConversationForModel) st)
      in case local_model w of
           Throws \<Rightarrow> (Rejected ''All AI services failed. Please try again later.'', st1)
         | Returns s \<Rightarrow>
             (Resolved (Some s, Some \<lparr>message = Some s, intent = Some ''local_llm'', action = None,
                 requiresFollowUp = False, partialData = None, missingFields = None\<rparr>), st1))"

text \<open>Lines 94 to 172: the three steps, up to the post-processing.\<close>

definition attemptTiers :: "closure \<Rightarrow> world \<Rightarrow> string \<Rightarrow> bool \<Rightarrow> chat_msg \<Rightarrow> engine \<Rightarrow> (string option \<times> tier_result option) completion \<times> engine" where
  "attemptTiers cl w text useRAGMode userMessage st =
     (let updatedConversationForModel = rendered_conversation cl @ [userMessage];
          st0 = st\<lparr>ctx := setUserContext (context_arg cl) (ctx st)\<rparr>;
          a = (if useRAGMode then tierA w (context_arg cl) text st0 else ((None, None), st0));
          b = (if falsy (fst (fst a)) then tierB w text (fst a) (snd a) else a)
      in if falsy (fst (fst b))
         then tierC w updatedConversationForModel (snd b)
         else (Resolved (fst b), snd b))"

text \<open>Lines 175 to 185.\<close>

definition postProcess :: "tier_result option \<Rightarrow> conv_ctx \<Rightarrow> conv_ctx" where
  "postProcess result cx =
     (case result of
        None \<Rightarrow> cx
      | Some r \<Rightarrow>
          (case (requiresFollowUp r, intent r, partialData r, missingFields r) of
             (True, Some i, Some pd, Some mf) \<Rightarrow>
               (if i = [] then clearPendingFollowUp cx else setPendingFollowUp i pd mf cx)
           | _ \<Rightarrow> clearPendingFollowUp cx))"

text \<open>Lines 175 to 208: post-processing, the cancellation guard, the second append.\<close>

definition commit :: "world \<Rightarrow> nat \<Rightarrow> (string option \<times> tier_result option) \<Rightarrow> engine \<Rightarrow> tier_result option completion \<times> engine" where
  "commit w cancellationId rr st =
     (let response = fst rr;
          result = snd rr;
          st1 = st\<lparr>ctx := postProcess result (ctx st)\<rparr>
      in if cancellationId \<noteq> cancellationRef st1 then (Resolved None, st1)
         else (case response of
                 None \<Rightarrow> (Resolved result, st1)
               | Some s \<Rightarrow>
                   if s = [] then (Resolved result, st1)
                   else
                     (let botMessage = \<lparr>msg_id = bot_id w, role = Assistant, content = s,
                                         timestamp = bot_ts w\<rparr>;
                          st2 = appendMessage (save_bot_ok w) botMessage st1
                      in (Resolved result, st2\<lparr>ctx := addMessage Assistant s (ctx st2)\<rparr>))))"

text \<open>The \<open>try\<close> block.\<close>

definition tryBlock :: "closure \<Rightarrow> world \<Rightarrow> string \<Rightarrow> bool \<Rightarrow> chat_msg \<Rightarrow> nat \<Rightarrow> engine \<Rightarrow> tier_result option completion \<times> engine" where
  "tryBlock cl w text useRAGMode userMessage cancellationId st =
     (case attemptTiers cl w text useRAGMode userMessage st of
        (Rejected e, st1) \<Rightarrow> (Rejected e, st1)
      | (Resolved rr, st1) \<Rightarrow> commit w cancellationId rr st1)"

text \<open>
  \<open>sendMessage(text, useRAGMode, initializeContext)\<close>: the guard, the start, the
  \<open>try\<close> block, the \<open>catch\<close> that raises an alert and returns nothing, and the
  \<open>finally\<close> that clears the generating flag.
\<close>

definition sendMessage :: "closure \<Rightarrow> world \<Rightarrow> string \<Rightarrow> bool \<Rightarrow> engine \<Rightarrow> tier_result option completion \<times> engine" where
  "sendMessage cl w text useRAGMode st =
     (if blank text then (Resolved None, st)
      else
        (case begin_send cl w text st of
           (userMessage, cancellationId, st3) \<Rightarrow>
             (case tryBlock cl w text useRAGMode userMessage cancellationId st3 of
                (Rejected e, st4) \<Rightarrow>
                  (Resolved None,
                   setIsGenerating False (emit (AlertShown (''Failed to generate response: '' @ e)) st4))
              | (Resolved r, st4) \<Rightarrow> (Resolved r, setIsGenerating False st4))))"

subsection \<open>Observing a call\<close>

text \<open>
  The state the \<open>try\<close> block has reached when the post-processing starts: the captured
  counter, what the tiers left in \<open>response\<close> and \<open>result\<close> (or the thrown error), and
  the hook state.
\<close>

definition commitPoint :: "closure \<Rightarrow> world \<Rightarrow> string \<Rightarrow> bool \<Rightarrow> engine \<Rightarrow> nat \<times> (string option \<times> tier_result option) completion \<times> engine" where
  "commitPoint cl w text useRAGMode st =
     (case begin_send cl w text st of
        (userMessage, cancellationId, st3) \<Rightarrow>
          (case attemptTiers cl w text useRAGMode userMessage st3 of
             (c, sc) \<Rightarrow> (cancellationId, c, sc)))"

definition new_effects :: "engine \<Rightarrow> engine \<Rightarrow> effect list" where
  "new_effects st st' = drop (length (effects st)) (effects st')"

fun clear_write :: "ui_event \<Rightarrow> effect" where
  "clear_write (ClearPressed ok) = StorageSet [] ok"

fun is_tier_call :: "effect \<Rightarrow> bool" where
  "is_tier_call (RagQuery t p) = True"
| "is_tier_call (RagFollowUp t) = True"
| "is_tier_call (AgentPost t) = True"
| "is_tier_call (LocalGenerate h) = True"
| "is_tier_call e = False"

datatype tier = TierA | TierB | TierC

fun tier_calls :: "effect \<Rightarrow> tier list" where
  "tier_calls (RagQuery t p) = [TierA]"
| "tier_calls (RagFollowUp t) = [TierA]"
| "tier_calls (AgentPost t) = [TierB]"
| "tier_calls (LocalGenerate h) = [TierC]"
| "tier_calls e = []"

definition tiers_invoked :: "effect list \<Rightarrow> tier list" where
  "tiers_invoked es = concat (map tier_calls es)"

fun prompt_of :: "effect \<Rightarrow> chat_msg list list" where
  "prompt_of (LocalGenerate h) = [h]"
| "prompt_of e = []"

definition local_prompts :: "effect list \<Rightarrow> chat_msg list list" where
  "local_prompts es = concat (map prompt_of es)"

fun alert_of :: "effect \<Rightarrow> string list" where
  "alert_of (AlertShown m) = [m]"
| "alert_of e = []"

definition alerts_shown :: "effect list \<Rightarrow> string list" where
  "alerts_shown es = concat (map alert_of es)"

definition turn_of :: "chat_msg \<Rightarrow> role \<times> string" where
  "turn_of m = (role m, content m)"

text \<open>The \<open>message\<close> field each tier yields in this call, if it yields one.\<close>

definition ragMessage :: "world \<Rightarrow> string option" where
  "ragMessage w =
     (case rag w of Throws \<Rightarrow> None | Returns None \<Rightarrow> None | Returns (Some r) \<Rightarrow> message r)"

definition agentMessage :: "world \<Rightarrow> string option" where
  "agentMessage w =
     (case agent w of AgentOk body \<Rightarrow> body | AgentStatus n \<Rightarrow> None | AgentError \<Rightarrow> None)"

definition localMessage :: "world \<Rightarrow> string option" where
  "localMessage w = (case local_model w of Throws \<Rightarrow> None | Returns s \<Rightarrow> Some s)"

text \<open>The result object a tier hands over.\<close>

definition reply_of :: "tier \<Rightarrow> world \<Rightarrow> tier_result option" where
  "reply_of t w =
     (case t of
        TierA \<Rightarrow> (case rag w of Throws \<Rightarrow> None | Returns x \<Rightarrow> x)
      | TierB \<Rightarrow> Some \<lparr>message = agentMessage w, intent = Some ''backend_fallback'', action = None,
                     requiresFollowUp = False, partialData = None, missingFields = None\<rparr>
      | TierC \<Rightarrow> Some \<lparr>message = localMessage w, intent = Some ''local_llm'', action = None,
                     requiresFollowUp = False, partialData = None, missingFields = None\<rparr>)"

text \<open>
  The tie-break rule in the specification's words: the tiers in the order A, B, C, with A
  only when retrieval is enabled; a tier is tried when every tier before it yielded no
  non-empty message, and the first that yields one wins.
\<close>

definition tier_plan :: "bool \<Rightarrow> world \<Rightarrow> (tier \<times> string option) list" where
  "tier_plan ragEnabled w =
     (if ragEnabled then [(TierA, ragMessage w)] else [])
       @ [(TierB, agentMessage w), (TierC, localMessage w)]"

fun attempted :: "(tier \<times> string option) list \<Rightarrow> tier list" where
  "attempted [] = []"
| "attempted ((t, m) # rest) = t # (if falsy m then attempted rest else [])"

fun winner :: "(tier \<times> string option) list \<Rightarrow> (tier \<times> string) option" where
  "winner [] = None"
| "winner ((t, None) # rest) = winner rest"
| "winner ((t, Some m) # rest) = (if m = [] then winner rest else Some (t, m))"

definition a_wins :: "bool \<Rightarrow> world \<Rightarrow> bool" where
  "a_wins useRAGMode w = (useRAGMode \<and> \<not> falsy (ragMessage w))"

text \<open>All three tiers were tried and the last one threw.\<close>

definition exhausted :: "bool \<Rightarrow> world \<Rightarrow> bool" where
  "exhausted useRAGMode w =
     (\<not> a_wins useRAGMode w \<and> falsy (agentMessage w) \<and> local_model w = Throws)"

text \<open>The interface events that fall into the suspensions of the tiers that run.\<close>

definition in_flight :: "bool \<Rightarrow> world \<Rightarrow> ui_event list" where
  "in_flight useRAGMode w =
     (if useRAGMode then during_rag w else [])
       @ (if a_wins useRAGMode w then []
          else during_agent w @ (if falsy (agentMessage w) then during_local w else []))"

text \<open>The result carries \<open>requiresFollowUp\<close> together with the three fields, all truthy.\<close>

definition carries_followup :: "tier_result \<Rightarrow> bool" where
  "carries_followup r =
     (requiresFollowUp r \<and> \<not> falsy (intent r) \<and> partialData r \<noteq> None \<and> missingFields r \<noteq> None)"

definition followup_of :: "tier_result \<Rightarrow> pending_followup" where
  "followup_of r =
     \<lparr>pf_intent = (case intent r of Some i \<Rightarrow> i | None \<Rightarrow> []),
      pf_partialData = (case partialData r of Some pd \<Rightarrow> pd | None \<Rightarrow> []),
      pf_missingFields = (case missingFields r of Some mf \<Rightarrow> mf | None \<Rightarrow> [])\<rparr>"

text \<open>The effects of a call, phase by phase.\<close>

definition opening_trace :: "closure \<Rightarrow> world \<Rightarrow> effect list" where
  "opening_trace cl w = (if isInitialized cl then [] else map clear_write (during_init w))"

definition tiers_trace :: "closure \<Rightarrow> world \<Rightarrow> string \<Rightarrow> bool \<Rightarrow> chat_msg \<Rightarrow> engine \<Rightarrow> effect list" where
  "tiers_trace cl w text useRAGMode userMessage st =
     (if useRAGMode
      then (if hasPendingFollowUp (ctx st) then RagFollowUp text else RagQuery text (context_arg cl))
             # map clear_write (during_rag w)
      else [])
       @ (if a_wins useRAGMode w then []
          else AgentPost text # map clear_write (during_agent w)
                 @ (if falsy (agentMessage w)
                    then LocalGenerate (rendered_conversation cl @ [userMessage])
                           # map clear_write (during_local w)
                    else []))"

definition closing_trace :: "world \<Rightarrow> nat \<Rightarrow> (string option \<times> tier_result option) completion \<Rightarrow> engine \<Rightarrow> effect list" where
  "closing_trace w cid c sc =
     (case c of
        Rejected e \<Rightarrow> [AlertShown (''Failed to generate response: '' @ e)]
      | Resolved rr \<Rightarrow>
          (if cid = cancellationRef sc \<and> \<not> falsy (fst rr)
           then [StorageSet (conversation sc @
               [\<lparr>msg_id = bot_id w, role = Assistant,
                 content = (case fst rr of Some s \<Rightarrow> s | None \<Rightarrow> []), timestamp = bot_ts w\<rparr>])
               (save_bot_ok w)]
           else []))"

subsection \<open>Sample states and worlds\<close>

definition st_empty :: engine where
  "st_empty = \<lparr>conversation = [], isGenerating = False, cancellationRef = 0, storage = None,
     ctx = \<lparr>history = [], userContext = [], pendingFollowUp = None\<rparr>, effects = []\<rparr>"

definition m_hi :: chat_msg where
  "m_hi = \<lparr>msg_id = ''m1'', role = User, content = ''Hi'', timestamp = ''09:00''\<rparr>"

definition m_welcome :: chat_msg where
  "m_welcome = \<lparr>msg_id = ''m2'', role = Assistant, content = ''Welcome'', timestamp = ''09:01''\<rparr>"

text \<open>A hook with one exchange behind it, stored and mirrored in the session.\<close>

definition st_chat :: engine where
  "st_chat = \<lparr>conversation = [m_hi, m_welcome], isGenerating = False, cancellationRef = 0,
     storage = Some [m_hi, m_welcome],
     ctx = \<lparr>history = [(User, ''Hi''), (Assistant, ''Welcome'')], userContext = [],
            pendingFollowUp = None\<rparr>,
     effects = []\<rparr>"

text \<open>Retrieval throws, the agent is unreachable, the local model answers.\<close>

definition w_offline :: world where
  "w_offline = \<lparr>during_init = [], user_id = ''u1'', user_ts = ''10:00'', save_user_ok = True,
     rag = Throws, during_rag = [], agent = AgentError, during_agent = [],
     local_model = Returns ''Hi'', during_local = [], bot_id = ''b1'', bot_ts = ''10:01'',
     save_bot_ok = True\<rparr>"

definition r_followup :: tier_result where
  "r_followup = \<lparr>message = Some ''Which weight?'', intent = Some ''log_weight'', action = None,
     requiresFollowUp = True, partialData = Some [(''week'', ''12'')],
     missingFields = Some [''weight'']\<rparr>"

definition m_hello :: chat_msg where
  "m_hello = \<lparr>msg_id = ''u1'', role = User, content = ''Hello'', timestamp = ''10:00''\<rparr>"

definition m_next :: chat_msg where
  "m_next = \<lparr>msg_id = ''u1'', role = User, content = ''Next'', timestamp = ''10:00''\<rparr>"

definition m_reply :: chat_msg where
  "m_reply = \<lparr>msg_id = ''b1'', role = Assistant, content = ''Hi'', timestamp = ''10:01''\<rparr>"

lemmas model_defs =
  sendMessage_def tryBlock_def commit_def postProcess_def attemptTiers_def tierA_def tierB_def
  tierC_def begin_send_def useChatEngine_def appendMessage_def setIsGenerating_def interfere.simps
  clearConversation_def saveChats_def emit_def clearConversationHistory_def
  processFollowUpResponse_def clearPendingFollowUp_def setPendingFollowUp_def
  hasPendingFollowUp_def setUserContext_def addMessage_def falsy_def blank_def trim_def
  isWhiteSpace_def Let_def

lemmas sample_defs =
  st_empty_def st_chat_def w_offline_def r_followup_def m_hi_def m_welcome_def m_hello_def
  m_next_def m_reply_def

section \<open>Properties\<close>

subsection \<open>Blank text\<close>

lemma trim_Nil_iff: "trim s = [] \<longleftrightarrow> (\<forall>c\<in>set s. isWhiteSpace c)"
proof -
  have "trim s = [] \<longleftrightarrow> (\<forall>c\<in>set (dropWhile isWhiteSpace s). isWhiteSpace c)"
    by (simp add: trim_def dropWhile_eq_Nil_conv)
  also have "\<dots> \<longleftrightarrow> dropWhile isWhiteSpace s = []"
    by (metis dropWhile_eq_Nil_conv dropWhile_idem)
  finally show ?thesis by (simp add: dropWhile_eq_Nil_conv)
qed

lemma hello_not_blank: "\<not> blank ''Hello''"
  by (simp add: blank_def trim_def isWhiteSpace_def)

lemma next_not_blank: "\<not> blank ''Next''"
  by (simp add: blank_def trim_def isWhiteSpace_def)

lemma falsy_simps [simp]: "falsy None" "falsy (Some s) \<longleftrightarrow> s = []"
  by (simp_all add: falsy_def)

subsection \<open>Interface events\<close>

lemma interfere_cancellationRef:
  "cancellationRef (interfere es st) = cancellationRef st + length es"
  by (induction es st rule: interfere.induct)
     (simp_all add: clearConversation_def saveChats_def emit_def Let_def)

lemma interfere_conversation:
  "conversation (interfere es st) = (if es = [] then conversation st else [])"
  by (induction es st rule: interfere.induct)
     (simp_all add: clearConversation_def saveChats_def emit_def Let_def)

lemma interfere_effects: "effects (interfere es st) = effects st @ map clear_write es"
  by (induction es st rule: interfere.induct)
     (simp_all add: clearConversation_def saveChats_def emit_def Let_def)

lemma clear_write_tier [simp]: "tier_calls (clear_write e) = []"
  by (cases e) simp

lemma clear_write_prompt [simp]: "prompt_of (clear_write e) = []"
  by (cases e) simp

lemma clear_write_alert [simp]: "alert_of (clear_write e) = []"
  by (cases e) simp

lemma clear_write_not_flag [simp]: "clear_write e \<noteq> SetIsGenerating b"
  by (cases e) simp

lemma flag_not_clear_write [simp]: "SetIsGenerating b \<noteq> clear_write e"
  by (cases e) simp

lemma clear_write_not_call [simp]: "\<not> is_tier_call (clear_write e)"
  by (cases e) simp

subsection \<open>Reading the effects\<close>

lemma tiers_invoked_simps [simp]:
  "tiers_invoked [] = []"
  "tiers_invoked (e # es) = tier_calls e @ tiers_invoked es"
  "tiers_invoked (xs @ ys) = tiers_invoked xs @ tiers_invoked ys"
  "tiers_invoked (map clear_write evs) = []"
  by (simp_all add: tiers_invoked_def)

lemma local_prompts_simps [simp]:
  "local_prompts [] = []"
  "local_prompts (e # es) = prompt_of e @ local_prompts es"
  "local_prompts (xs @ ys) = local_prompts xs @ local_prompts ys"
  "local_prompts (map clear_write evs) = []"
  by (simp_all add: local_prompts_def)

lemma alerts_shown_simps [simp]:
  "alerts_shown [] = []"
  "alerts_shown (e # es) = alert_of e @ alerts_shown es"
  "alerts_shown (xs @ ys) = alerts_shown xs @ alerts_shown ys"
  "alerts_shown (map clear_write evs) = []"
  by (simp_all add: alerts_shown_def)

lemma new_effects_append [simp]: "effects st' = effects st @ xs \<Longrightarrow> new_effects st st' = xs"
  by (simp add: new_effects_def)

subsection \<open>The phases of a call\<close>

lemma saveChats_effects: "effects (saveChats ok c st) = effects st @ [StorageSet c ok]"
  by (simp add: saveChats_def emit_def Let_def)

lemma appendMessage_effects:
  "effects (appendMessage ok m st) = effects st @ [StorageSet (conversation st @ [m]) ok]"
  by (simp add: appendMessage_def saveChats_effects Let_def)

lemma begin_send_effects:
  "effects (snd (snd (begin_send cl w text st))) =
     effects st @ (if isInitialized cl then [] else map clear_write (during_init w))
       @ [SetIsGenerating True,
          StorageSet (conversation (if isInitialized cl then st else interfere (during_init w) st)
             @ [fst (begin_send cl w text st)]) (save_user_ok w)]"
  by (simp add: begin_send_def Let_def setIsGenerating_def emit_def appendMessage_effects
      interfere_effects)

lemma begin_send_fields:
  "fst (begin_send cl w text st) =
     \<lparr>msg_id = user_id w, role = User, content = text, timestamp = user_ts w\<rparr>"
  "fst (snd (begin_send cl w text st)) = cancellationRef (snd (snd (begin_send cl w text st)))"
  "conversation (snd (snd (begin_send cl w text st))) =
     (if isInitialized cl \<or> during_init w = [] then conversation st else [])
       @ [fst (begin_send cl w text st)]"
  by (simp_all add: begin_send_def Let_def setIsGenerating_def emit_def appendMessage_def
      saveChats_def interfere_conversation)

lemma tierA_effects:
  "effects (snd (tierA w cx text st)) =
     effects st @ (if hasPendingFollowUp (ctx st) then RagFollowUp text else RagQuery text cx)
       # map clear_write (during_rag w)"
  by (simp add: tierA_def Let_def emit_def interfere_effects split: outcome.splits option.splits)

lemma tierB_effects:
  "effects (snd (tierB w text rr st)) =
     effects st @ AgentPost text # map clear_write (during_agent w)"
  by (simp add: tierB_def Let_def emit_def interfere_effects split: agent_reply.splits)

lemma tierC_effects:
  "effects (snd (tierC w h st)) =
     effects st @ LocalGenerate h # map clear_write (during_local w)"
  by (simp add: tierC_def Let_def emit_def interfere_effects split: outcome.splits)

lemma tierA_response:
  "fst (tierA w cx text st) =
     (if falsy (ragMessage w) then None else ragMessage w, reply_of TierA w)"
  by (simp add: tierA_def Let_def ragMessage_def reply_of_def falsy_def
      split: outcome.splits option.splits)

lemma tierB_response:
  "fst (tierB w text rr st) =
     (case agent w of
        AgentOk body \<Rightarrow> (agentMessage w, reply_of TierB w)
      | AgentStatus n \<Rightarrow> rr
      | AgentError \<Rightarrow> rr)"
  by (simp add: tierB_def Let_def agentMessage_def reply_of_def split: agent_reply.splits)

lemma tierC_response:
  "fst (tierC w h st) =
     (case local_model w of
        Throws \<Rightarrow> Rejected ''All AI services failed. Please try again later.''
      | Returns s \<Rightarrow> Resolved (Some s, reply_of TierC w))"
  by (simp add: tierC_def Let_def localMessage_def reply_of_def split: outcome.splits)

lemma tierA_fields:
  "conversation (snd (tierA w cx text st)) = (if during_rag w = [] then conversation st else [])"
  "cancellationRef (snd (tierA w cx text st)) = cancellationRef st + length (during_rag w)"
  by (simp_all add: tierA_def Let_def emit_def interfere_conversation interfere_cancellationRef
      split: outcome.splits option.splits)

lemma tierB_fields:
  "conversation (snd (tierB w text rr st)) = (if during_agent w = [] then conversation st else [])"
  "cancellationRef (snd (tierB w text rr st)) = cancellationRef st + length (during_agent w)"
  by (simp_all add: tierB_def Let_def emit_def interfere_conversation interfere_cancellationRef
      split: agent_reply.splits)

lemma tierC_fields:
  "conversation (snd (tierC w h st)) = (if during_local w = [] then conversation st else [])"
  "cancellationRef (snd (tierC w h st)) = cancellationRef st + length (during_local w)"
  by (simp_all add: tierC_def Let_def emit_def interfere_conversation interfere_cancellationRef
      split: outcome.splits)

lemma setUserContext_pending: "hasPendingFollowUp (setUserContext p cx) = hasPendingFollowUp cx"
  by (simp add: hasPendingFollowUp_def setUserContext_def)

lemma attemptTiers_response:
  "fst (attemptTiers cl w text useRAGMode um st) =
     (if a_wins useRAGMode w then Resolved (ragMessage w, reply_of TierA w)
      else if \<not> falsy (agentMessage w) then Resolved (agentMessage w, reply_of TierB w)
      else (case local_model w of
              Throws \<Rightarrow> Rejected ''All AI services failed. Please try again later.''
            | Returns s \<Rightarrow> Resolved (Some s, reply_of TierC w)))"
  by (auto simp: attemptTiers_def Let_def a_wins_def tierA_response tierB_response tierC_response
      agentMessage_def split: agent_reply.splits outcome.splits)

lemma attemptTiers_effects:
  "effects (snd (attemptTiers cl w text useRAGMode um st)) =
     effects st @ tiers_trace cl w text useRAGMode um st"
  by (auto simp: attemptTiers_def Let_def a_wins_def tiers_trace_def tierA_response tierB_response
      tierA_effects tierB_effects tierC_effects setUserContext_pending agentMessage_def
      split: agent_reply.splits)

lemma attemptTiers_conversation:
  "conversation (snd (attemptTiers cl w text useRAGMode um st)) =
     (if in_flight useRAGMode w = [] then conversation st else [])"
  by (auto simp: attemptTiers_def Let_def a_wins_def in_flight_def tierA_response tierB_response
      tierA_fields tierB_fields tierC_fields agentMessage_def split: agent_reply.splits)

lemma attemptTiers_cancellationRef:
  "cancellationRef (snd (attemptTiers cl w text useRAGMode um st)) =
     cancellationRef st + length (in_flight useRAGMode w)"
  by (auto simp: attemptTiers_def Let_def a_wins_def in_flight_def tierA_response tierB_response
      tierA_fields tierB_fields tierC_fields agentMessage_def split: agent_reply.splits)

subsection \<open>The commit point\<close>

lemma commitPoint_exists: "\<exists>cid c sc. commitPoint cl w text useRAGMode st = (cid, c, sc)"
  by (metis prod_cases3)

lemma commitPoint_parts:
  "commitPoint cl w text useRAGMode st =
     (fst (snd (begin_send cl w text st)),
      attemptTiers cl w text useRAGMode (fst (begin_send cl w text st))
        (snd (snd (begin_send cl w text st))))"
  by (simp add: commitPoint_def split: prod.splits)

lemma commitPoint_cancellationRef:
  assumes "commitPoint cl w text useRAGMode st = (cid, c, sc)"
  shows "cancellationRef sc = cid + length (in_flight useRAGMode w)"
proof -
  have "sc = snd (attemptTiers cl w text useRAGMode (fst (begin_send cl w text st))
               (snd (snd (begin_send cl w text st))))"
    and "cid = fst (snd (begin_send cl w text st))"
    using assms by (simp_all add: commitPoint_parts)
  then show ?thesis
    by (simp add: attemptTiers_cancellationRef begin_send_fields(2))
qed

lemma commitPoint_conversation:
  assumes "commitPoint cl w text useRAGMode st = (cid, c, sc)"
  shows "conversation sc =
           (if in_flight useRAGMode w = []
            then (if isInitialized cl \<or> during_init w = [] then conversation st else [])
                   @ [fst (begin_send cl w text st)]
            else [])"
proof -
  have "sc = snd (attemptTiers cl w text useRAGMode (fst (begin_send cl w text st))
               (snd (snd (begin_send cl w text st))))"
    using assms by (simp add: commitPoint_parts)
  then show ?thesis
    by (simp add: attemptTiers_conversation begin_send_fields(3))
qed

lemma commitPoint_response:
  assumes "commitPoint cl w text useRAGMode st = (cid, c, sc)"
  shows "c = (if a_wins useRAGMode w then Resolved (ragMessage w, reply_of TierA w)
      else if \<not> falsy (agentMessage w) then Resolved (agentMessage w, reply_of TierB w)
      else (case local_model w of
              Throws \<Rightarrow> Rejected ''All AI services failed. Please try again later.''
            | Returns s \<Rightarrow> Resolved (Some s, reply_of TierC w)))"
proof -
  have "c = fst (attemptTiers cl w text useRAGMode (fst (begin_send cl w text st))
               (snd (snd (begin_send cl w text st))))"
    using assms by (simp add: commitPoint_parts)
  then show ?thesis
    by (simp only: attemptTiers_response)
qed

lemma commitPoint_result:
  assumes "commitPoint cl w text useRAGMode st = (cid, Resolved (response, result), sc)"
  shows "\<exists>r. result = Some r \<and> message r = response"
  using commitPoint_response [OF assms]
  by (auto simp: a_wins_def ragMessage_def reply_of_def localMessage_def
      split: if_splits outcome.splits option.splits)

lemma commitPoint_rejected_iff:
  assumes "commitPoint cl w text useRAGMode st = (cid, c, sc)"
  shows "exhausted useRAGMode w \<Longrightarrow> c = Rejected ''All AI services failed. Please try again later.''"
    and "\<not> exhausted useRAGMode w \<Longrightarrow> \<exists>rr. c = Resolved rr"
  using commitPoint_response [OF assms]
  by (auto simp: exhausted_def split: outcome.splits)

lemma commitPoint_effects:
  assumes "commitPoint cl w text useRAGMode st = (cid, c, sc)"
  shows "effects sc =
     effects st @ (if isInitialized cl then [] else map clear_write (during_init w))
       @ [SetIsGenerating True,
          StorageSet (conversation (if isInitialized cl then st else interfere (during_init w) st)
             @ [fst (begin_send cl w text st)]) (save_user_ok w)]
       @ tiers_trace cl w text useRAGMode (fst (begin_send cl w text st))
           (snd (snd (begin_send cl w text st)))"
proof -
  have "sc = snd (attemptTiers cl w text useRAGMode (fst (begin_send cl w text st))
               (snd (snd (begin_send cl w text st))))"
    using assms by (simp add: commitPoint_parts)
  then show ?thesis
    by (simp add: attemptTiers_effects begin_send_effects)
qed

subsection \<open>Post-processing, guard and second append\<close>

lemma commit_Resolved: "\<exists>r. fst (commit w cid rr st) = Resolved r"
  by (simp add: commit_def Let_def split: option.splits)

lemma postProcess_history: "history (postProcess result cx) = history cx"
  by (simp add: postProcess_def clearPendingFollowUp_def setPendingFollowUp_def
      split: option.splits bool.splits)

lemma postProcess_pending:
  "pendingFollowUp (postProcess (Some r) cx) =
     (if carries_followup r then Some (followup_of r) else None)"
  by (simp add: postProcess_def carries_followup_def followup_of_def falsy_def
      clearPendingFollowUp_def setPendingFollowUp_def split: option.splits bool.splits)

lemma commit_pending:
  "pendingFollowUp (ctx (snd (commit w cid rr st))) =
     pendingFollowUp (postProcess (snd rr) (ctx st))"
  by (simp add: commit_def Let_def appendMessage_def saveChats_def emit_def addMessage_def
      split: option.splits)

lemma commit_cancelled:
  "cid \<noteq> cancellationRef st \<Longrightarrow>
     commit w cid rr st = (Resolved None, st\<lparr>ctx := postProcess (snd rr) (ctx st)\<rparr>)"
  by (simp add: commit_def Let_def)

lemma commit_silent:
  assumes "cid = cancellationRef st" and "falsy (fst rr)"
  shows "commit w cid rr st = (Resolved (snd rr), st\<lparr>ctx := postProcess (snd rr) (ctx st)\<rparr>)"
  using assms by (cases "fst rr") (simp_all add: commit_def Let_def)

lemma commit_committed:
  assumes "cid = cancellationRef st" and "fst rr = Some s" and "s \<noteq> []"
  shows "fst (commit w cid rr st) = Resolved (snd rr)"
    and "conversation (snd (commit w cid rr st)) =
           conversation st
             @ [\<lparr>msg_id = bot_id w, role = Assistant, content = s, timestamp = bot_ts w\<rparr>]"
    and "save_bot_ok w \<Longrightarrow>
           storage (snd (commit w cid rr st)) = Some (conversation (snd (commit w cid rr st)))"
  using assms
  by (simp_all add: commit_def Let_def appendMessage_def saveChats_def emit_def addMessage_def)

lemma commit_effects:
  "effects (snd (commit w cid rr st)) =
     effects st @ (if cid = cancellationRef st \<and> \<not> falsy (fst rr)
       then [StorageSet (conversation st @
               [\<lparr>msg_id = bot_id w, role = Assistant,
                 content = (case fst rr of Some s \<Rightarrow> s | None \<Rightarrow> []), timestamp = bot_ts w\<rparr>])
               (save_bot_ok w)]
       else [])"
  by (simp add: commit_def Let_def appendMessage_effects split: option.splits)

subsection \<open>The generating flag and the store across the phases\<close>

lemma interfere_isGenerating: "isGenerating (interfere es st) = isGenerating st"
  by (induction es st rule: interfere.induct)
     (simp_all add: clearConversation_def saveChats_def emit_def Let_def)

lemma tiers_isGenerating:
  "isGenerating (snd (tierA w cx text st)) = isGenerating st"
  "isGenerating (snd (tierB w text rr st)) = isGenerating st"
  "isGenerating (snd (tierC w h st)) = isGenerating st"
  by (simp_all add: tierA_def tierB_def tierC_def Let_def emit_def interfere_isGenerating
      split: outcome.splits option.splits agent_reply.splits)

lemma attemptTiers_isGenerating:
  "isGenerating (snd (attemptTiers cl w text useRAGMode um st)) = isGenerating st"
  by (simp add: attemptTiers_def Let_def tiers_isGenerating)

lemma tiers_storage:
  "during_rag w = [] \<Longrightarrow> storage (snd (tierA w cx text st)) = storage st"
  "during_agent w = [] \<Longrightarrow> storage (snd (tierB w text rr st)) = storage st"
  "during_local w = [] \<Longrightarrow> storage (snd (tierC w h st)) = storage st"
  by (simp_all add: tierA_def tierB_def tierC_def Let_def emit_def
      split: outcome.splits option.splits agent_reply.splits)

lemma attemptTiers_storage:
  "in_flight useRAGMode w = [] \<Longrightarrow>
     storage (snd (attemptTiers cl w text useRAGMode um st)) = storage st"
  by (auto simp: attemptTiers_def Let_def a_wins_def in_flight_def tierA_response tierB_response
      tiers_storage agentMessage_def split: agent_reply.splits if_splits)

lemma begin_send_storage:
  "save_user_ok w \<Longrightarrow>
     storage (snd (snd (begin_send cl w text st))) =
       Some (conversation (snd (snd (begin_send cl w text st))))"
  by (simp add: begin_send_def Let_def setIsGenerating_def emit_def appendMessage_def
      saveChats_def)


subsection \<open>The whole call through its commit point\<close>

lemma sendMessage_at_commit:
  assumes "\<not> blank text" and "commitPoint cl w text useRAGMode st = (cid, Resolved rr, sc)"
  shows "sendMessage cl w text useRAGMode st =
           (fst (commit w cid rr sc), setIsGenerating False (snd (commit w cid rr sc)))"
proof -
  obtain r where r: "fst (commit w cid rr sc) = Resolved r"
    using commit_Resolved by blast
  then have "commit w cid rr sc = (Resolved r, snd (commit w cid rr sc))"
    by (metis prod.collapse)
  with assms r show ?thesis
    by (auto simp: sendMessage_def commitPoint_def tryBlock_def split: prod.splits completion.splits)
qed

lemma sendMessage_at_failure:
  assumes "\<not> blank text" and "commitPoint cl w text useRAGMode st = (cid, Rejected e, sc)"
  shows "sendMessage cl w text useRAGMode st =
           (Resolved None,
            setIsGenerating False (emit (AlertShown (''Failed to generate response: '' @ e)) sc))"
  using assms
  by (auto simp: sendMessage_def commitPoint_def tryBlock_def split: prod.splits completion.splits)

lemma sendMessage_Resolved:
  assumes "\<not> blank text"
  shows "\<exists>r. fst (sendMessage cl w text useRAGMode st) = Resolved r"
proof -
  obtain cid c sc where cp: "commitPoint cl w text useRAGMode st = (cid, c, sc)"
    using commitPoint_exists by blast
  show ?thesis
  proof (cases c)
    case (Resolved rr)
    then show ?thesis
      using commit_Resolved [of w cid rr sc]
      by (simp add: sendMessage_at_commit [OF assms cp [unfolded Resolved]])
  next
    case (Rejected e)
    then show ?thesis
      by (simp add: sendMessage_at_failure [OF assms cp [unfolded Rejected]])
  qed
qed

lemma sendMessage_effects:
  assumes "\<not> blank text" and "commitPoint cl w text useRAGMode st = (cid, c, sc)"
  shows "effects (snd (sendMessage cl w text useRAGMode st)) =
           effects sc @ closing_trace w cid c sc @ [SetIsGenerating False]"
proof (cases c)
  case (Resolved rr)
  with assms show ?thesis
    by (simp add: sendMessage_at_commit closing_trace_def setIsGenerating_def emit_def
        commit_effects)
next
  case (Rejected e)
  with assms show ?thesis
    by (simp add: sendMessage_at_failure closing_trace_def setIsGenerating_def emit_def)
qed

lemma sendMessage_new_effects:
  assumes "\<not> blank text" and "commitPoint cl w text useRAGMode st = (cid, c, sc)"
  shows "new_effects st (snd (sendMessage cl w text useRAGMode st)) =
           opening_trace cl w
           @ SetIsGenerating True
           # (StorageSet (conversation (if isInitialized cl then st else interfere (during_init w) st)
                @ [fst (begin_send cl w text st)]) (save_user_ok w)
              # tiers_trace cl w text useRAGMode (fst (begin_send cl w text st))
                  (snd (snd (begin_send cl w text st)))
              @ closing_trace w cid c sc)
           @ [SetIsGenerating False]"
  by (rule new_effects_append)
     (simp add: sendMessage_effects [OF assms] commitPoint_effects [OF assms(2)] opening_trace_def)

lemma opening_trace_quiet:
  "tiers_invoked (opening_trace cl w) = []"
  "local_prompts (opening_trace cl w) = []"
  "alerts_shown (opening_trace cl w) = []"
  "\<forall>e\<in>set (opening_trace cl w). \<not> is_tier_call e"
  by (auto simp: opening_trace_def)

lemma tiers_trace_invoked:
  "tiers_invoked (tiers_trace cl w text useRAGMode um st) = attempted (tier_plan useRAGMode w)"
  by (simp add: tiers_trace_def tier_plan_def a_wins_def)

lemma tiers_trace_prompts:
  "local_prompts (tiers_trace cl w text useRAGMode um st) =
     (if TierC \<in> set (attempted (tier_plan useRAGMode w))
      then [rendered_conversation cl @ [um]] else [])"
  by (simp add: tiers_trace_def tier_plan_def a_wins_def)

lemma tiers_trace_alerts: "alerts_shown (tiers_trace cl w text useRAGMode um st) = []"
  by (simp add: tiers_trace_def)

lemma tiers_trace_flagless: "SetIsGenerating b \<notin> set (tiers_trace cl w text useRAGMode um st)"
  by (auto simp: tiers_trace_def)

lemma closing_trace_quiet:
  "tiers_invoked (closing_trace w cid c sc) = []"
  "local_prompts (closing_trace w cid c sc) = []"
  "SetIsGenerating b \<notin> set (closing_trace w cid c sc)"
  by (simp_all add: closing_trace_def split: completion.splits)

lemma closing_trace_alerts:
  "alerts_shown (closing_trace w cid c sc) =
     (case c of Rejected e \<Rightarrow> [''Failed to generate response: '' @ e] | Resolved rr \<Rightarrow> [])"
  by (simp add: closing_trace_def split: completion.splits)

lemma winner_plan:
  "winner (tier_plan useRAGMode w) =
     (if a_wins useRAGMode w
      then Some (TierA, case ragMessage w of Some m \<Rightarrow> m | None \<Rightarrow> [])
      else if \<not> falsy (agentMessage w)
      then Some (TierB, case agentMessage w of Some m \<Rightarrow> m | None \<Rightarrow> [])
      else (case local_model w of
              Throws \<Rightarrow> None
            | Returns s \<Rightarrow> if s = [] then None else Some (TierC, s)))"
  by (cases "ragMessage w"; cases "agentMessage w"; cases "local_model w")
     (auto simp: tier_plan_def a_wins_def localMessage_def)

section \<open>The claims\<close>

text \<open>
  Claim C1.  For every call of \<open>sendMessage\<close> whose text is not blank, the tiers are
  invoked in the fixed order A (only when retrieval is enabled), then B, then C, and a
  tier is invoked only while no earlier tier has yielded a non-empty \<open>message\<close>: the
  tier calls of the run are exactly those of the tie-break rule.  The first tier that
  yields a non-empty message wins: its message and its result object are what reaches
  the commit point, and when no clear fell into the run they are what the call returns
  and appends.
\<close>

theorem tiers_in_order_first_reply_wins:
  assumes "\<not> blank text"
  shows "tiers_invoked (new_effects st (snd (sendMessage cl w text useRAGMode st)))
           = attempted (tier_plan useRAGMode w)
       \<and> (\<forall>t m. winner (tier_plan useRAGMode w) = Some (t, m) \<longrightarrow>
             fst (snd (commitPoint cl w text useRAGMode st)) = Resolved (Some m, reply_of t w)
           \<and> (in_flight useRAGMode w = [] \<longrightarrow>
                fst (sendMessage cl w text useRAGMode st) = Resolved (reply_of t w)
              \<and> last (conversation (snd (sendMessage cl w text useRAGMode st))) =
                  \<lparr>msg_id = bot_id w, role = Assistant, content = m, timestamp = bot_ts w\<rparr>))"
proof -
  obtain cid c sc where cp: "commitPoint cl w text useRAGMode st = (cid, c, sc)"
    using commitPoint_exists by blast
  have order: "tiers_invoked (new_effects st (snd (sendMessage cl w text useRAGMode st)))
           = attempted (tier_plan useRAGMode w)"
    by (simp add: sendMessage_new_effects [OF assms cp] opening_trace_quiet tiers_trace_invoked
        closing_trace_quiet)
  have wins: "fst (snd (commitPoint cl w text useRAGMode st)) = Resolved (Some m, reply_of t w)
           \<and> (in_flight useRAGMode w = [] \<longrightarrow>
                fst (sendMessage cl w text useRAGMode st) = Resolved (reply_of t w)
              \<and> last (conversation (snd (sendMessage cl w text useRAGMode st))) =
                  \<lparr>msg_id = bot_id w, role = Assistant, content = m, timestamp = bot_ts w\<rparr>)"
    if win: "winner (tier_plan useRAGMode w) = Some (t, m)" for t m
  proof -
    have c: "c = Resolved (Some m, reply_of t w)" and m: "m \<noteq> []"
      using win commitPoint_response [OF cp]
      by (auto simp: winner_plan a_wins_def split: if_splits option.splits outcome.splits)
    have "fst (sendMessage cl w text useRAGMode st) = Resolved (reply_of t w)
        \<and> last (conversation (snd (sendMessage cl w text useRAGMode st))) =
            \<lparr>msg_id = bot_id w, role = Assistant, content = m, timestamp = bot_ts w\<rparr>"
      if "in_flight useRAGMode w = []"
    proof -
      have "cid = cancellationRef sc"
        using commitPoint_cancellationRef [OF cp] that by simp
      then show ?thesis
        using m commit_committed(1,2) [of cid sc "(Some m, reply_of t w)" m w]
        by (simp add: sendMessage_at_commit [OF assms cp [unfolded c]] setIsGenerating_def emit_def)
    qed
    then show ?thesis using cp c by simp
  qed
  from order wins show ?thesis by blast
qed

text \<open>
  Three runs from the empty hook: with retrieval enabled and answering, only tier A is
  invoked and its result is returned; with retrieval disabled the agent answers and only
  tier B is invoked; with retrieval and agent failing all three are invoked in order and
  the local model's reply is appended.
\<close>

theorem tiers_in_order_first_reply_wins_witness:
  "\<not> blank ''Hello''
 \<and> tiers_invoked (new_effects st_empty (snd (sendMessage (useChatEngine True [] st_empty)
      (w_offline\<lparr>rag := Returns (Some r_followup), agent := AgentOk (Some ''From agent'')\<rparr>)
      ''Hello'' True st_empty))) = [TierA]
 \<and> fst (sendMessage (useChatEngine True [] st_empty)
      (w_offline\<lparr>rag := Returns (Some r_followup), agent := AgentOk (Some ''From agent'')\<rparr>)
      ''Hello'' True st_empty) = Resolved (Some r_followup)
 \<and> tiers_invoked (new_effects st_empty (snd (sendMessage (useChatEngine True [] st_empty)
      (w_offline\<lparr>rag := Returns (Some r_followup), agent := AgentOk (Some ''From agent'')\<rparr>)
      ''Hello'' False st_empty))) = [TierB]
 \<and> tiers_invoked (new_effects st_empty (snd (sendMessage (useChatEngine True [] st_empty)
      w_offline ''Hello'' True st_empty))) = [TierA, TierB, TierC]
 \<and> last (conversation (snd (sendMessage (useChatEngine True [] st_empty)
      w_offline ''Hello'' True st_empty))) = m_reply"
  using hello_not_blank
    tiers_in_order_first_reply_wins [OF hello_not_blank, of st_empty "useChatEngine True [] st_empty"
      "w_offline\<lparr>rag := Returns (Some r_followup), agent := AgentOk (Some ''From agent'')\<rparr>" True]
    tiers_in_order_first_reply_wins [OF hello_not_blank, of st_empty "useChatEngine True [] st_empty"
      "w_offline\<lparr>rag := Returns (Some r_followup), agent := AgentOk (Some ''From agent'')\<rparr>" False]
    tiers_in_order_first_reply_wins [OF hello_not_blank, of st_empty "useChatEngine True [] st_empty"
      w_offline True]
  by (simp add: tier_plan_def ragMessage_def agentMessage_def localMessage_def in_flight_def
      a_wins_def reply_of_def sample_defs)

text \<open>
  Claim C2.  When the counter captured at the start differs from the counter at the
  commit point, which happens exactly when a clear fell into the tiers' suspensions, the
  call returns nothing and from the commit point on changes neither the conversation, nor
  the session history, nor the stored blob: its only further effect is to clear the
  generating flag.  The call itself never removes the user's message.
\<close>

theorem cancelled_response_discarded:
  assumes "\<not> blank text"
    and "commitPoint cl w text useRAGMode st = (cid, Resolved (response, result), sc)"
    and "cid \<noteq> cancellationRef sc"
  shows "in_flight useRAGMode w \<noteq> []
       \<and> fst (sendMessage cl w text useRAGMode st) = Resolved None
       \<and> conversation (snd (sendMessage cl w text useRAGMode st)) = conversation sc
       \<and> history (ctx (snd (sendMessage cl w text useRAGMode st))) = history (ctx sc)
       \<and> storage (snd (sendMessage cl w text useRAGMode st)) = storage sc
       \<and> new_effects sc (snd (sendMessage cl w text useRAGMode st)) = [SetIsGenerating False]"
  using assms(3) commitPoint_cancellationRef [OF assms(2)]
  by (auto simp: sendMessage_at_commit [OF assms(1,2)] commit_cancelled setIsGenerating_def
      emit_def postProcess_history new_effects_def)

text \<open>
  The local model answers while the user clears the conversation: nothing of the answer
  is kept, and the conversation, the session and the store are as the clear left them.
\<close>

theorem cancelled_response_discarded_witness:
  "fst (sendMessage (useChatEngine True [] st_empty) (w_offline\<lparr>during_local := [ClearPressed True]\<rparr>)
          ''Hello'' False st_empty) = Resolved None
 \<and> conversation (snd (sendMessage (useChatEngine True [] st_empty)
          (w_offline\<lparr>during_local := [ClearPressed True]\<rparr>) ''Hello'' False st_empty)) = []
 \<and> history (ctx (snd (sendMessage (useChatEngine True [] st_empty)
          (w_offline\<lparr>during_local := [ClearPressed True]\<rparr>) ''Hello'' False st_empty))) = []
 \<and> storage (snd (sendMessage (useChatEngine True [] st_empty)
          (w_offline\<lparr>during_local := [ClearPressed True]\<rparr>) ''Hello'' False st_empty)) = Some []"
proof -
  let ?cl = "useChatEngine True [] st_empty"
  let ?w = "w_offline\<lparr>during_local := [ClearPressed True]\<rparr>"
  obtain cid c sc where cp: "commitPoint ?cl ?w ''Hello'' False st_empty = (cid, c, sc)"
    using commitPoint_exists by blast
  then have vals: "cid = 0" "c = Resolved (Some ''Hi'', reply_of TierC ?w)" "cancellationRef sc = 1"
    "conversation sc = []" "history (ctx sc) = []" "storage sc = Some []"
    by (auto simp: commitPoint_def model_defs reply_of_def localMessage_def sample_defs)
  have guard: "cid \<noteq> cancellationRef sc"
    using vals by simp
  show ?thesis
    using cancelled_response_discarded [OF hello_not_blank cp [unfolded vals(2)] guard] vals
    by simp
qed

text \<open>
  Claim C5.  When the result that reaches the commit point carries \<open>requiresFollowUp\<close>
  together with \<open>intent\<close>, \<open>partialData\<close> and \<open>missingFields\<close>, the call leaves that
  follow-up registered, and otherwise it leaves none; this holds whether or not the
  cancellation guard then discards the reply, because the bookkeeping runs first.
\<close>

theorem followup_bookkeeping_precedes_guard:
  assumes "\<not> blank text"
    and "commitPoint cl w text useRAGMode st = (cid, Resolved (response, Some r), sc)"
  shows "pendingFollowUp (ctx (snd (sendMessage cl w text useRAGMode st))) =
           (if carries_followup r then Some (followup_of r) else None)
       \<and> (cid \<noteq> cancellationRef sc \<longrightarrow>
            fst (sendMessage cl w text useRAGMode st) = Resolved None
          \<and> conversation (snd (sendMessage cl w text useRAGMode st)) = conversation sc)"
proof -
  have "pendingFollowUp (ctx (snd (sendMessage cl w text useRAGMode st))) =
           (if carries_followup r then Some (followup_of r) else None)"
    by (simp add: sendMessage_at_commit [OF assms] setIsGenerating_def emit_def commit_pending
        postProcess_pending)
  moreover have "fst (sendMessage cl w text useRAGMode st) = Resolved None
          \<and> conversation (snd (sendMessage cl w text useRAGMode st)) = conversation sc"
    if "cid \<noteq> cancellationRef sc"
    using that
    by (simp add: sendMessage_at_commit [OF assms] commit_cancelled setIsGenerating_def emit_def)
  ultimately show ?thesis by blast
qed

text \<open>
  Retrieval asks for a follow-up while the user clears the conversation: the reply is
  discarded, the conversation is empty, and the follow-up is installed all the same.
\<close>

theorem followup_bookkeeping_precedes_guard_witness:
  "fst (sendMessage (useChatEngine True [] st_empty)
          (w_offline\<lparr>rag := Returns (Some r_followup), during_rag := [ClearPressed True]\<rparr>)
          ''Hello'' True st_empty) = Resolved None
 \<and> conversation (snd (sendMessage (useChatEngine True [] st_empty)
          (w_offline\<lparr>rag := Returns (Some r_followup), during_rag := [ClearPressed True]\<rparr>)
          ''Hello'' True st_empty)) = []
 \<and> pendingFollowUp (ctx (snd (sendMessage (useChatEngine True [] st_empty)
          (w_offline\<lparr>rag := Returns (Some r_followup), during_rag := [ClearPressed True]\<rparr>)
          ''Hello'' True st_empty))) =
     Some \<lparr>pf_intent = ''log_weight'', pf_partialData = [(''week'', ''12'')],
           pf_missingFields = [''weight'']\<rparr>"
proof -
  let ?cl = "useChatEngine True [] st_empty"
  let ?w = "w_offline\<lparr>rag := Returns (Some r_followup), during_rag := [ClearPressed True]\<rparr>"
  obtain cid c sc where cp: "commitPoint ?cl ?w ''Hello'' True st_empty = (cid, c, sc)"
    using commitPoint_exists by blast
  then have vals: "c = Resolved (Some ''Which weight?'', Some r_followup)"
    by (auto simp: commitPoint_def model_defs sample_defs)
  have rest: "fst (sendMessage ?cl ?w ''Hello'' True st_empty) = Resolved None"
    "conversation (snd (sendMessage ?cl ?w ''Hello'' True st_empty)) = []"
    by (simp_all add: model_defs sample_defs)
  show ?thesis
    using followup_bookkeeping_precedes_guard [OF hello_not_blank cp [unfolded vals]] rest
    by (simp add: carries_followup_def followup_of_def r_followup_def)
qed

text \<open>
  Claim C10.  When the cancellation guard fires, the call returns no result descriptor,
  although a tier had produced one: at the commit point \<open>result\<close> is an object.
\<close>

theorem cancelled_call_returns_nothing:
  assumes "\<not> blank text"
    and "commitPoint cl w text useRAGMode st = (cid, Resolved (response, result), sc)"
    and "cid \<noteq> cancellationRef sc"
  shows "fst (sendMessage cl w text useRAGMode st) = Resolved None \<and> result \<noteq> None"
  using assms(3) commitPoint_result [OF assms(2)]
  by (auto simp: sendMessage_at_commit [OF assms(1,2)] commit_cancelled)

text \<open>
  The agent answers while the user clears the conversation: the caller gets nothing.
\<close>

theorem cancelled_call_returns_nothing_witness:
  "fst (sendMessage (useChatEngine True [] st_chat)
          (w_offline\<lparr>agent := AgentOk (Some ''From agent''), during_agent := [ClearPressed False]\<rparr>)
          ''Hello'' False st_chat) = Resolved None"
proof -
  let ?cl = "useChatEngine True [] st_chat"
  let ?w = "w_offline\<lparr>agent := AgentOk (Some ''From agent''), during_agent := [ClearPressed False]\<rparr>"
  obtain cid c sc where cp: "commitPoint ?cl ?w ''Hello'' False st_chat = (cid, c, sc)"
    using commitPoint_exists by blast
  then have vals: "cid = 0" "c = Resolved (Some ''From agent'', reply_of TierB ?w)"
    "cancellationRef sc = 1"
    by (auto simp: commitPoint_def model_defs reply_of_def agentMessage_def sample_defs)
  have guard: "cid \<noteq> cancellationRef sc"
    using vals by simp
  show ?thesis
    using cancelled_call_returns_nothing [OF hello_not_blank cp [unfolded vals(2)] guard]
    by simp
qed

text \<open>
  Claim C3, amended.  For every call of \<open>sendMessage\<close> whose text is not blank, no
  failure is thrown to the caller: the promise always resolves.  Failures of tier A and
  tier B raise no alert; the one failure shown is the terminal one, when tier C is reached
  and throws: then the \<open>catch\<close> block raises a single alert saying that all services
  failed, the call resolves with no result, and of this call the conversation contains
  only the user's message: it is the conversation as it stood when that message was added,
  followed by the message and nothing else (and it is empty when a clear fell into the
  suspensions of the tiers).
\<close>

theorem terminal_failure_alerted_not_thrown:
  assumes "\<not> blank text"
  shows "(\<exists>r. fst (sendMessage cl w text useRAGMode st) = Resolved r)
       \<and> alerts_shown (new_effects st (snd (sendMessage cl w text useRAGMode st))) =
           (if exhausted useRAGMode w
            then [''Failed to generate response: All AI services failed. Please try again later.'']
            else [])
       \<and> (exhausted useRAGMode w \<longrightarrow>
            fst (sendMessage cl w text useRAGMode st) = Resolved None
          \<and> conversation (snd (sendMessage cl w text useRAGMode st)) =
              (if in_flight useRAGMode w = []
               then (if isInitialized cl \<or> during_init w = [] then conversation st else [])
                      @ [\<lparr>msg_id = user_id w, role = User, content = text, timestamp = user_ts w\<rparr>]
               else []))"
proof -
  obtain cid c sc where cp: "commitPoint cl w text useRAGMode st = (cid, c, sc)"
    using commitPoint_exists by blast
  have alerts: "alerts_shown (new_effects st (snd (sendMessage cl w text useRAGMode st))) =
           (if exhausted useRAGMode w
            then [''Failed to generate response: All AI services failed. Please try again later.'']
            else [])"
    using commitPoint_rejected_iff [OF cp]
    by (auto simp: sendMessage_new_effects [OF assms cp] opening_trace_quiet tiers_trace_alerts
        closing_trace_alerts)
  have failure: "fst (sendMessage cl w text useRAGMode st) = Resolved None
          \<and> conversation (snd (sendMessage cl w text useRAGMode st)) =
              (if in_flight useRAGMode w = []
               then (if isInitialized cl \<or> during_init w = [] then conversation st else [])
                      @ [\<lparr>msg_id = user_id w, role = User, content = text, timestamp = user_ts w\<rparr>]
               else [])"
    if "exhausted useRAGMode w"
  proof -
    have c: "c = Rejected ''All AI services failed. Please try again later.''"
      using commitPoint_rejected_iff(1) [OF cp that] .
    have "fst (sendMessage cl w text useRAGMode st) = Resolved None
        \<and> conversation (snd (sendMessage cl w text useRAGMode st)) = conversation sc"
      using assms cp [unfolded c]
      by (auto simp: sendMessage_def commitPoint_def tryBlock_def setIsGenerating_def emit_def
          split: prod.splits completion.splits)
    then show ?thesis
      by (simp add: commitPoint_conversation [OF cp] begin_send_fields(1))
  qed
  from sendMessage_Resolved [OF assms] alerts failure show ?thesis by blast
qed

text \<open>
  All three tiers fail: the caller's promise resolves with nothing instead of rejecting
  with the terminal failure.
\<close>

theorem terminal_failure_thrown_counterexample:
  "fst (sendMessage (useChatEngine True [] st_empty) (w_offline\<lparr>local_model := Throws\<rparr>)
          ''Hello'' True st_empty) = Resolved None
 \<and> fst (sendMessage (useChatEngine True [] st_empty) (w_offline\<lparr>local_model := Throws\<rparr>)
          ''Hello'' True st_empty) \<noteq> Rejected ''All AI services failed. Please try again later.''"
  by (simp add: model_defs sample_defs)

text \<open>
  The same run from the empty hook and from a hook with one exchange: one alert is
  raised, and the conversation is what it was with the user's message after it.
\<close>

theorem terminal_failure_alerted_not_thrown_witness:
  "\<not> blank ''Hello'' \<and> exhausted True (w_offline\<lparr>local_model := Throws\<rparr>)
 \<and> alerts_shown (new_effects st_empty (snd (sendMessage (useChatEngine True [] st_empty)
        (w_offline\<lparr>local_model := Throws\<rparr>) ''Hello'' True st_empty))) =
     [''Failed to generate response: All AI services failed. Please try again later.'']
 \<and> fst (sendMessage (useChatEngine True [] st_empty) (w_offline\<lparr>local_model := Throws\<rparr>)
        ''Hello'' True st_empty) = Resolved None
 \<and> conversation (snd (sendMessage (useChatEngine True [] st_empty)
        (w_offline\<lparr>local_model := Throws\<rparr>) ''Hello'' True st_empty)) = [m_hello]
 \<and> conversation (snd (sendMessage (useChatEngine True [] st_chat)
        (w_offline\<lparr>local_model := Throws\<rparr>) ''Hello'' True st_chat)) = [m_hi, m_welcome, m_hello]"
proof -
  have ex: "exhausted True (w_offline\<lparr>local_model := Throws\<rparr>)"
    by (simp add: exhausted_def a_wins_def ragMessage_def agentMessage_def w_offline_def)
  have quiet: "in_flight True (w_offline\<lparr>local_model := Throws\<rparr>) = []"
    by (simp add: in_flight_def a_wins_def ragMessage_def agentMessage_def w_offline_def)
  have run: "conversation (snd (sendMessage (useChatEngine True [] st_empty)
        (w_offline\<lparr>local_model := Throws\<rparr>) ''Hello'' True st_empty)) = [m_hello]"
    by (simp add: model_defs sample_defs)
  show ?thesis
    using hello_not_blank ex quiet run
      terminal_failure_alerted_not_thrown [OF hello_not_blank, of "useChatEngine True [] st_empty"
        "w_offline\<lparr>local_model := Throws\<rparr>" True st_empty]
      terminal_failure_alerted_not_thrown [OF hello_not_blank, of "useChatEngine True [] st_chat"
        "w_offline\<lparr>local_model := Throws\<rparr>" True st_chat]
    by (simp add: w_offline_def st_empty_def st_chat_def m_hello_def useChatEngine_def)
qed

text \<open>
  Claim C4, amended.  For every call of \<open>sendMessage\<close> that returns a result with a
  non-empty message (a tier produced a response and the call was not cancelled), the call
  issues a storage write of exactly the conversation it leaves in memory.  If that write
  is accepted, the stored conversation equals the one in memory.  If it is rejected,
  \<open>saveChats\<close> swallows the failure and the stored blob stays what it was at the
  commit point; when the write of the user's message had been accepted, that is the
  conversation in memory without the assistant message, the last mutation whose write
  succeeded.  The source queues the state update with its write and does not await it;
  the states compared are those reached once the queued update has run and its write has
  settled, not those at the instant the promise resolves.
\<close>

theorem persisted_equals_memory_when_write_succeeds:
  assumes "\<not> blank text"
    and "fst (sendMessage cl w text useRAGMode st) = Resolved (Some r)"
    and "\<not> falsy (message r)"
  shows "StorageSet (conversation (snd (sendMessage cl w text useRAGMode st))) (save_bot_ok w)
           \<in> set (new_effects st (snd (sendMessage cl w text useRAGMode st)))
       \<and> (save_bot_ok w \<longrightarrow>
            storage (snd (sendMessage cl w text useRAGMode st)) =
              Some (conversation (snd (sendMessage cl w text useRAGMode st))))
       \<and> (\<not> save_bot_ok w \<longrightarrow>
            storage (snd (sendMessage cl w text useRAGMode st)) =
              storage (snd (snd (commitPoint cl w text useRAGMode st)))
          \<and> (save_user_ok w \<longrightarrow>
               storage (snd (sendMessage cl w text useRAGMode st)) =
                 Some (butlast (conversation (snd (sendMessage cl w text useRAGMode st))))))"
proof -
  obtain cid c sc where cp: "commitPoint cl w text useRAGMode st = (cid, c, sc)"
    using commitPoint_exists by blast
  show ?thesis
  proof (cases c)
    case (Rejected e)
    with assms(2) show ?thesis
      by (simp add: sendMessage_at_failure [OF assms(1) cp [unfolded Rejected]])
  next
    case (Resolved rr)
    obtain response result where rr: "rr = (response, result)"
      by (cases rr)
    note cp' = cp [unfolded Resolved rr]
    obtain r' where r': "result = Some r'" "message r' = response"
      using commitPoint_result [OF cp'] by blast
    note sm = sendMessage_at_commit [OF assms(1) cp']
    have same: "cid = cancellationRef sc"
    proof (rule ccontr)
      assume "cid \<noteq> cancellationRef sc"
      then have "fst (commit w cid (response, result) sc) = Resolved None"
        by (simp add: commit_cancelled)
      with assms(2) sm show False by simp
    qed
    have quiet: "in_flight useRAGMode w = []"
      using commitPoint_cancellationRef [OF cp'] same by simp
    have "\<not> falsy response"
      using assms(2,3) sm r' commit_silent [OF same, of "(response, result)" w] by auto
    then obtain s where s: "response = Some s" "s \<noteq> []"
      by (cases response) auto
    have conv: "conversation (snd (sendMessage cl w text useRAGMode st)) =
        conversation sc @ [\<lparr>msg_id = bot_id w, role = Assistant, content = s, timestamp = bot_ts w\<rparr>]"
      using commit_committed(2) [OF same _ s(2), of "(response, result)" w] s(1)
      by (simp add: sm setIsGenerating_def emit_def)
    have issued: "StorageSet (conversation (snd (sendMessage cl w text useRAGMode st))) (save_bot_ok w)
           \<in> set (new_effects st (snd (sendMessage cl w text useRAGMode st)))"
      using same s
      by (simp add: sendMessage_new_effects [OF assms(1) cp'] closing_trace_def conv)
    have stored: "storage (snd (sendMessage cl w text useRAGMode st)) =
              Some (conversation (snd (sendMessage cl w text useRAGMode st)))"
      if "save_bot_ok w"
      using same s that
      by (simp add: sm setIsGenerating_def emit_def commit_def Let_def appendMessage_def
          saveChats_def addMessage_def)
    have kept: "storage (snd (sendMessage cl w text useRAGMode st)) = storage sc"
      if "\<not> save_bot_ok w"
      using same s that
      by (simp add: sm setIsGenerating_def emit_def commit_def Let_def appendMessage_def
          saveChats_def addMessage_def)
    have sc: "sc = snd (attemptTiers cl w text useRAGMode (fst (begin_send cl w text st))
               (snd (snd (begin_send cl w text st))))"
      using cp' by (simp add: commitPoint_parts)
    have earlier: "storage sc = Some (conversation sc)" if "save_user_ok w"
      using that quiet
      by (simp add: sc attemptTiers_storage attemptTiers_conversation begin_send_storage)
    from issued stored kept earlier show ?thesis
      by (simp add: cp' conv)
  qed
qed

text \<open>
  The local model answers, the call returns its result, and the write of the two-message
  conversation is rejected: the store still holds the user's message alone.
\<close>

theorem persisted_differs_from_memory_counterexample:
  "fst (sendMessage (useChatEngine True [] st_empty) (w_offline\<lparr>save_bot_ok := False\<rparr>)
          ''Hello'' False st_empty) = Resolved (reply_of TierC w_offline)
 \<and> conversation (snd (sendMessage (useChatEngine True [] st_empty)
          (w_offline\<lparr>save_bot_ok := False\<rparr>) ''Hello'' False st_empty)) = [m_hello, m_reply]
 \<and> storage (snd (sendMessage (useChatEngine True [] st_empty)
          (w_offline\<lparr>save_bot_ok := False\<rparr>) ''Hello'' False st_empty)) = Some [m_hello]
 \<and> storage (snd (sendMessage (useChatEngine True [] st_empty)
          (w_offline\<lparr>save_bot_ok := False\<rparr>) ''Hello'' False st_empty)) \<noteq>
     Some (conversation (snd (sendMessage (useChatEngine True [] st_empty)
          (w_offline\<lparr>save_bot_ok := False\<rparr>) ''Hello'' False st_empty)))"
  by (simp add: model_defs sample_defs reply_of_def localMessage_def)

text \<open>
  The run with both writes accepted: store and memory agree.  A run from a hook with one
  stored exchange in which both writes are rejected: memory holds four messages and the
  store still holds the two it held.
\<close>

theorem persisted_equals_memory_when_write_succeeds_witness:
  "\<not> blank ''Hello'' \<and> save_bot_ok w_offline
 \<and> conversation (snd (sendMessage (useChatEngine True [] st_empty) w_offline ''Hello''
          False st_empty)) = [m_hello, m_reply]
 \<and> storage (snd (sendMessage (useChatEngine True [] st_empty) w_offline ''Hello'' False st_empty))
     = Some [m_hello, m_reply]
 \<and> conversation (snd (sendMessage (useChatEngine True [] st_chat)
          (w_offline\<lparr>save_user_ok := False, save_bot_ok := False\<rparr>) ''Hello'' False st_chat))
     = [m_hi, m_welcome, m_hello, m_reply]
 \<and> storage (snd (sendMessage (useChatEngine True [] st_chat)
          (w_offline\<lparr>save_user_ok := False, save_bot_ok := False\<rparr>) ''Hello'' False st_chat))
     = Some [m_hi, m_welcome]"
proof -
  let ?r = "\<lparr>message = Some ''Hi'', intent = Some ''local_llm'', action = None,
     requiresFollowUp = False, partialData = None, missingFields = None\<rparr>"
  let ?w = "w_offline\<lparr>save_user_ok := False, save_bot_ok := False\<rparr>"
  have ret: "fst (sendMessage (useChatEngine True [] st_empty) w_offline ''Hello'' False st_empty)
      = Resolved (Some ?r)"
    by (simp add: model_defs sample_defs)
  have ret': "fst (sendMessage (useChatEngine True [] st_chat) ?w ''Hello'' False st_chat)
      = Resolved (Some ?r)"
    by (simp add: model_defs sample_defs)
  have msg: "\<not> falsy (message ?r)"
    by simp
  have ok: "save_bot_ok w_offline" "\<not> save_bot_ok ?w"
    by (simp_all add: w_offline_def)
  have conv: "conversation (snd (sendMessage (useChatEngine True [] st_empty) w_offline ''Hello''
          False st_empty)) = [m_hello, m_reply]"
    "conversation (snd (sendMessage (useChatEngine True [] st_chat) ?w ''Hello'' False st_chat))
      = [m_hi, m_welcome, m_hello, m_reply]"
    by (simp_all add: model_defs sample_defs)
  have at_commit: "storage (snd (snd (commitPoint (useChatEngine True [] st_chat) ?w ''Hello''
          False st_chat))) = Some [m_hi, m_welcome]"
    by (simp add: commitPoint_def model_defs sample_defs)
  show ?thesis
    using hello_not_blank ok conv at_commit
      persisted_equals_memory_when_write_succeeds [OF hello_not_blank ret msg]
      persisted_equals_memory_when_write_succeeds [OF hello_not_blank ret' msg]
    by simp
qed

text \<open>
  Claim C6, amended.  Whenever a call of \<open>sendMessage\<close> reaches tier C, the local
  model is invoked once, and its prompting context is the \<open>conversation\<close> state that the
  render which built the callback saw, as full message objects, followed by the user
  message just created; the session context's history is not what is passed.
\<close>

theorem local_model_prompt_is_rendered_conversation:
  assumes "\<not> blank text"
  shows "local_prompts (new_effects st (snd (sendMessage cl w text useRAGMode st))) =
           (if TierC \<in> set (attempted (tier_plan useRAGMode w))
            then [rendered_conversation cl
                    @ [\<lparr>msg_id = user_id w, role = User, content = text, timestamp = user_ts w\<rparr>]]
            else [])"
proof -
  obtain cid c sc where cp: "commitPoint cl w text useRAGMode st = (cid, c, sc)"
    using commitPoint_exists by blast
  show ?thesis
    by (simp add: sendMessage_new_effects [OF assms cp] opening_trace_quiet tiers_trace_prompts
        closing_trace_quiet begin_send_fields(1))
qed

text \<open>
  The callback was built by a render that saw two messages and an uninitialised context.
  While \<open>initializeContext\<close> is awaited the user clears the conversation.  The session
  history after the user's turn is added is that turn alone, yet the local model is
  prompted with the two cleared messages and the new one.
\<close>

theorem local_model_prompt_counterexample:
  "local_prompts (new_effects st_chat (snd (sendMessage (useChatEngine False [] st_chat)
      (w_offline\<lparr>during_init := [ClearPressed True]\<rparr>) ''Next'' False st_chat)))
     = [[m_hi, m_welcome, m_next]]
 \<and> history (ctx (snd (snd (begin_send (useChatEngine False [] st_chat)
      (w_offline\<lparr>during_init := [ClearPressed True]\<rparr>) ''Next'' st_chat)))) = [(User, ''Next'')]
 \<and> map turn_of [m_hi, m_welcome, m_next] \<noteq>
     history (ctx (snd (snd (begin_send (useChatEngine False [] st_chat)
      (w_offline\<lparr>during_init := [ClearPressed True]\<rparr>) ''Next'' st_chat))))"
  by (simp add: model_defs sample_defs new_effects_def local_prompts_def turn_of_def)

text \<open>
  With retrieval and agent failing, the model is prompted with the rendered conversation
  and the new user message.
\<close>

theorem local_model_prompt_is_rendered_conversation_witness:
  "\<not> blank ''Next''
 \<and> local_prompts (new_effects st_chat (snd (sendMessage (useChatEngine True [] st_chat)
      w_offline ''Next'' True st_chat))) = [[m_hi, m_welcome, m_next]]"
  using next_not_blank
    local_model_prompt_is_rendered_conversation [OF next_not_blank, of st_chat
      "useChatEngine True [] st_chat" w_offline True]
  by (simp add: tier_plan_def ragMessage_def agentMessage_def useChatEngine_def sample_defs)

text \<open>
  Claim C7.  For every call of \<open>sendMessage\<close> whose text is not blank, the generating
  flag is true when the \<open>try\<close> block is entered and is still true when the tiers are
  done, at the commit point; \<open>setIsGenerating(true)\<close> is called before any tier is
  invoked and no \<open>setIsGenerating(false)\<close> comes between it and the one of the
  \<open>finally\<close> block; after that one no tier is invoked and the flag is not raised
  again.  On every path (a committed reply, a cancelled one, a silent one, the terminal
  failure) \<open>isGenerating\<close> is false when the call completes.
\<close>

theorem generating_flag_set_then_released:
  assumes "\<not> blank text"
  shows "isGenerating (snd (snd (begin_send cl w text st))) = True
       \<and> isGenerating (snd (snd (commitPoint cl w text useRAGMode st))) = True
       \<and> isGenerating (snd (sendMessage cl w text useRAGMode st)) = False
       \<and> (\<exists>pre mid post. new_effects st (snd (sendMessage cl w text useRAGMode st)) =
                       pre @ SetIsGenerating True # mid @ SetIsGenerating False # post
                   \<and> (\<forall>e\<in>set pre. \<not> is_tier_call e)
                   \<and> SetIsGenerating False \<notin> set mid
                   \<and> (\<forall>e\<in>set post. \<not> is_tier_call e \<and> e \<noteq> SetIsGenerating True))"
proof -
  obtain cid c sc where cp: "commitPoint cl w text useRAGMode st = (cid, c, sc)"
    using commitPoint_exists by blast
  have released: "isGenerating (snd (sendMessage cl w text useRAGMode st)) = False"
  proof (cases c)
    case (Resolved rr)
    then show ?thesis
      by (simp add: sendMessage_at_commit [OF assms cp [unfolded Resolved]] setIsGenerating_def
          emit_def)
  next
    case (Rejected e)
    then show ?thesis
      by (simp add: sendMessage_at_failure [OF assms cp [unfolded Rejected]] setIsGenerating_def
          emit_def)
  qed
  let ?mid = "StorageSet (conversation (if isInitialized cl then st else interfere (during_init w) st)
                @ [fst (begin_send cl w text st)]) (save_user_ok w)
              # tiers_trace cl w text useRAGMode (fst (begin_send cl w text st))
                  (snd (snd (begin_send cl w text st)))
              @ closing_trace w cid c sc"
  have shape: "\<exists>pre mid post. new_effects st (snd (sendMessage cl w text useRAGMode st)) =
                       pre @ SetIsGenerating True # mid @ SetIsGenerating False # post
                   \<and> (\<forall>e\<in>set pre. \<not> is_tier_call e)
                   \<and> SetIsGenerating False \<notin> set mid
                   \<and> (\<forall>e\<in>set post. \<not> is_tier_call e \<and> e \<noteq> SetIsGenerating True)"
  proof (intro exI conjI)
    show "new_effects st (snd (sendMessage cl w text useRAGMode st)) =
          opening_trace cl w @ SetIsGenerating True # ?mid @ SetIsGenerating False # []"
      by (rule sendMessage_new_effects [OF assms cp])
    show "\<forall>e\<in>set (opening_trace cl w). \<not> is_tier_call e"
      by (rule opening_trace_quiet)
    show "SetIsGenerating False \<notin> set ?mid"
      by (simp add: tiers_trace_flagless closing_trace_quiet)
    show "\<forall>e\<in>set ([] :: effect list). \<not> is_tier_call e \<and> e \<noteq> SetIsGenerating True"
      by simp
  qed
  have raised: "isGenerating (snd (snd (begin_send cl w text st))) = True"
    by (simp add: begin_send_def Let_def setIsGenerating_def emit_def appendMessage_def
        saveChats_def)
  have held: "isGenerating (snd (snd (commitPoint cl w text useRAGMode st))) = True"
    by (simp add: commitPoint_parts attemptTiers_isGenerating raised)
  show ?thesis
    by (intro conjI raised held released shape)
qed

text \<open>
  A call whose tiers all fail: the flag is true at the commit point and false at the end.
  A call that starts while the flag is already true: it is false at the end.
\<close>

theorem generating_flag_set_then_released_witness:
  "\<not> blank ''Hello''
 \<and> isGenerating (snd (snd (commitPoint (useChatEngine True [] st_chat)
      (w_offline\<lparr>local_model := Throws\<rparr>) ''Hello'' True st_chat))) = True
 \<and> isGenerating (snd (sendMessage (useChatEngine True [] st_chat)
      (w_offline\<lparr>local_model := Throws\<rparr>) ''Hello'' True st_chat)) = False
 \<and> isGenerating (snd (sendMessage (useChatEngine True [] st_chat)
      w_offline ''Hello'' True (st_chat\<lparr>isGenerating := True\<rparr>))) = False"
proof -
  note failing = generating_flag_set_then_released [OF hello_not_blank,
      of "useChatEngine True [] st_chat" "w_offline\<lparr>local_model := Throws\<rparr>" st_chat True]
  note busy = generating_flag_set_then_released [OF hello_not_blank,
      of "useChatEngine True [] st_chat" w_offline "st_chat\<lparr>isGenerating := True\<rparr>" True]
  have run: "isGenerating (snd (snd (commitPoint (useChatEngine True [] st_chat)
      (w_offline\<lparr>local_model := Throws\<rparr>) ''Hello'' True st_chat))) = True"
    by (simp add: commitPoint_def model_defs sample_defs)
  from run show ?thesis
    by (intro conjI hello_not_blank failing [THEN conjunct2, THEN conjunct1]
        failing [THEN conjunct2, THEN conjunct2, THEN conjunct1]
        busy [THEN conjunct2, THEN conjunct2, THEN conjunct1])
qed

text \<open>
  Claim C8, amended.  Every call of the clear operation increments the counter exactly
  once, empties the conversation, empties the session history together with its pending
  follow-up, and issues one storage write of the empty conversation; the stored blob is
  the empty conversation whenever that write succeeds, and stays what it was when the
  write is rejected, which \<open>saveChats\<close> swallows.  After a clear no pending follow-up
  is present.
\<close>

theorem clear_resets_and_writes_empty:
  "cancellationRef (clearConversation ok st) = cancellationRef st + 1
 \<and> conversation (clearConversation ok st) = []
 \<and> history (ctx (clearConversation ok st)) = []
 \<and> pendingFollowUp (ctx (clearConversation ok st)) = None
 \<and> new_effects st (clearConversation ok st) = [StorageSet [] ok]
 \<and> (ok \<longrightarrow> storage (clearConversation ok st) = Some [])
 \<and> (\<not> ok \<longrightarrow> storage (clearConversation ok st) = storage st)"
  by (simp add: clearConversation_def clearConversationHistory_def saveChats_def emit_def Let_def
      new_effects_def)

text \<open>
  A clear whose storage write is rejected: the conversation in memory is empty and the
  store still holds the two messages.
\<close>

theorem clear_persists_empty_counterexample:
  "conversation (clearConversation False st_chat) = []
 \<and> storage (clearConversation False st_chat) = Some [m_hi, m_welcome]
 \<and> storage (clearConversation False st_chat) \<noteq> Some []"
  by (simp add: clearConversation_def clearConversationHistory_def saveChats_def emit_def Let_def
      st_chat_def)

text \<open>A clear whose write is accepted, on a hook with a follow-up pending.\<close>

theorem clear_resets_and_writes_empty_witness:
  "cancellationRef (clearConversation True
      (st_chat\<lparr>ctx := setPendingFollowUp ''log_weight'' [] [''weight''] (ctx st_chat)\<rparr>)) = 1
 \<and> pendingFollowUp (ctx (clearConversation True
      (st_chat\<lparr>ctx := setPendingFollowUp ''log_weight'' [] [''weight''] (ctx st_chat)\<rparr>))) = None
 \<and> storage (clearConversation True
      (st_chat\<lparr>ctx := setPendingFollowUp ''log_weight'' [] [''weight''] (ctx st_chat)\<rparr>)) = Some []"
  using clear_resets_and_writes_empty [of True
      "st_chat\<lparr>ctx := setPendingFollowUp ''log_weight'' [] [''weight''] (ctx st_chat)\<rparr>"]
  by (simp add: st_chat_def)

text \<open>
  Claim C9.  For every call of \<open>sendMessage\<close> whose text is empty or consists of
  white space only, the call returns without raising and without a result, and the whole
  state is unchanged: conversation, session context with its pending follow-up, stored
  blob, counter and generating flag.
\<close>

theorem blank_text_is_noop:
  assumes "\<forall>c\<in>set text. isWhiteSpace c"
  shows "sendMessage cl w text useRAGMode st = (Resolved None, st)"
proof -
  have "blank text"
    using assms by (simp add: blank_def trim_Nil_iff)
  then show ?thesis
    by (simp add: sendMessage_def)
qed

text \<open>A space, a tab and a line feed; and the empty text.\<close>

theorem blank_text_is_noop_witness:
  "isWhiteSpace (CHR '' '') \<and> isWhiteSpace (CHR 0x09) \<and> isWhiteSpace (CHR 0x0A)
 \<and> sendMessage (useChatEngine True [] st_chat) w_offline [CHR '' '', CHR 0x09, CHR 0x0A] True st_chat
     = (Resolved None, st_chat)
 \<and> sendMessage (useChatEngine True [] st_chat) w_offline [] True st_chat = (Resolved None, st_chat)"
proof -
  have ws: "\<forall>c\<in>set [CHR '' '', CHR 0x09, CHR 0x0A]. isWhiteSpace c"
    by (simp add: isWhiteSpace_def)
  have none: "\<forall>c\<in>set ([] :: string). isWhiteSpace c"
    by simp
  show ?thesis
    using ws blank_text_is_noop [OF ws, of "useChatEngine True [] st_chat" w_offline True st_chat]
      blank_text_is_noop [OF none, of "useChatEngine True [] st_chat" w_offline True st_chat]
    by simp
qed

end
